theory Spec2Isabelle
  imports Main
begin

section \<open>Data model\<close>

text \<open>
  The two modules \<^verbatim>\<open>qiskit/validation/base.py\<close> and \<^verbatim>\<open>qiskit/models/base.py\<close> work on
  Python class objects: a binder writes attributes into the class dictionary of a schema
  class and of a model class, and the installed functions read them back through
  attribute lookup. Class objects are therefore kept in an explicit store, addressed by
  name; a name stands for the identity of one class object.

  A Python dict with string keys (keyword arguments, an instance's \<^verbatim>\<open>__dict__\<close>, an input
  map) is a map from strings. Attribute names and keys are Python identifiers.
\<close>

type_synonym cname = string

type_synonym 'v pydict = "string \<rightharpoonup> 'v"

text \<open>The errors dict of marshmallow: field name and the messages of that field, in the
  order of the declared fields.\<close>

type_synonym errors = "(string \<times> string list) list"

text \<open>
  A reference to a class: a class object of the store (one made by a \<^verbatim>\<open>class\<close>
  statement, whose attributes can be assigned), or the builtin \<^verbatim>\<open>types.SimpleNamespace\<close>.
\<close>

datatype cref = Heap cname | SimpleNamespace

text \<open>What the class attribute \<^verbatim>\<open>model_cls\<close> can hold: \<^verbatim>\<open>None\<close> or a class.\<close>

datatype cls_value = NoneValue | ClassValue cref

text \<open>
  The payload of a \<^verbatim>\<open>ValidationError\<close>: the errors dict handed over by
  \<^verbatim>\<open>raise ValidationError(errors)\<close>, or the message of the two selectors of
  \<^verbatim>\<open>OneTypeOf\<close>, kept as the hint and the keys of the choices it is formatted from (the
  text of the data is left out).
\<close>

datatype verror = FieldErrors errors | CannotFindSchema string "string list"

text \<open>
  The exceptions of the code. \<^verbatim>\<open>ValueError\<close> is the one raised by the binder of
  \<^verbatim>\<open>validation/base.py\<close>; it carries the schema class and the class it is already bound
  to. \<^verbatim>\<open>TypeError\<close> and \<^verbatim>\<open>AttributeError\<close> are raised by Python itself (a call of
  something that is not callable, a keyword that repeats a parameter, a missing
  attribute); they carry the name concerned.

  \<open>Not_modelled\<close> is not an exception. It marks a step whose outcome is decided by an
  object that is no part of this development: an attribute that Python computes (a
  descriptor, a member of a class body, an attribute of \<^verbatim>\<open>object\<close>), the value a function
  returns, an object other than plain data and functions. The evaluation stops there with
  the name concerned and says nothing of what the code does next; it may well return.
\<close>

datatype error =
    ValidationError verror
  | ValueError cname cref
  | TypeError string
  | AttributeError string
  | Not_modelled string

text \<open>
  The values held by attributes, keywords and input maps: plain data of an arbitrary type
  \<open>'v\<close> (\<^verbatim>\<open>None\<close>, numbers, strings, lists, dicts: not callable, and without an attribute
  \<^verbatim>\<open>validate\<close> or \<^verbatim>\<open>dump\<close>); a function or another plain callable without these two
  attributes, given by the text \<^verbatim>\<open>str\<close> prints for it and by the exception that a call
  without arguments raises (\<open>None\<close> when the call returns); and any other object, given
  by its text.
\<close>

datatype 'v pyvalue =
    Data 'v
  | Function string "error option"
  | Object string

text \<open>
  The constructors (\<^verbatim>\<open>__init__\<close>) a model class can have: \<^verbatim>\<open>object.__init__\<close>, which takes
  no keyword; \<^verbatim>\<open>SimpleNamespace.__init__\<close>, which stores its keywords as attributes; a
  constructor body written in a model class, given by the attributes it leaves on the
  instance or the exception it raises; and the wrapper \<^verbatim>\<open>_decorated\<close> that
  \<^verbatim>\<open>_validate_after_init\<close> builds around a constructor, one for each module.
\<close>

datatype 'v init_fn =
    Object_init
  | SimpleNamespace_init
  | Custom_init "'v pydict \<Rightarrow> error + 'v pydict"
  | Decorated "'v init_fn"
  | Models_decorated "'v init_fn"

text \<open>
  Modelled from the spec: a field descriptor of a schema (the marshmallow field classes
  are not part of the sources). A field has a name (its key in the schema), is required
  or not, may have a default, and turns a raw value into a loaded one and back; either
  direction may reject the value with messages. The default is the one of marshmallow:
  the value dumped for a field that the object lacks; loading does not use it.
\<close>

record 'v field_descriptor =
  required :: bool
  default_value :: "'v option"
  deserialize :: "'v \<Rightarrow> string list + 'v"
  serialize :: "'v \<Rightarrow> string list + 'v"

text \<open>
  A class object. \<open>ancestors\<close> is its \<^verbatim>\<open>__mro__\<close> without the class itself and without
  \<^verbatim>\<open>object\<close>. The next six fields are the entries of the class's own \<^verbatim>\<open>__dict__\<close> that the
  code reads or writes, \<open>None\<close> or \<open>False\<close> when the entry is absent: \<^verbatim>\<open>model_cls\<close>,
  \<^verbatim>\<open>schema\<close> (an instance of the named schema class), \<^verbatim>\<open>_validate\<close>, \<^verbatim>\<open>to_dict\<close>,
  \<^verbatim>\<open>from_dict\<close> and \<^verbatim>\<open>__init__\<close>. \<open>declared_fields\<close> are the fields a schema class
  declares, the inherited ones included. \<open>members\<close> are the names of whatever else the
  class body defines: methods, properties, constants (a body that defines special
  methods such as \<^verbatim>\<open>__getattr__\<close> or \<^verbatim>\<open>__getitem__\<close> is not expressed).
\<close>

record 'v pyclass =
  ancestors :: "cref list"
  model_cls :: "cls_value option"
  schema :: "cname option"
  validate_attr :: bool
  to_dict_attr :: bool
  from_dict_attr :: bool
  init_attr :: "'v init_fn option"
  declared_fields :: "(string \<times> 'v field_descriptor) list"
  members :: "string list"

type_synonym 'v store = "cname \<Rightarrow> 'v pyclass"

text \<open>An instance of a model class: its class and its \<^verbatim>\<open>__dict__\<close>.\<close>

record 'v pyobj =
  obj_class :: cref
  obj_dict :: "'v pydict"

text \<open>What \<^verbatim>\<open>schema.load\<close> returns as data: the part of the input that was valid when
  there are errors, the model made by \<^verbatim>\<open>make_model\<close> otherwise.\<close>

datatype 'v loaded = Partial "'v pydict" | Model "'v pyobj"

section \<open>Attribute lookup\<close>

definition empty_class :: "'v pyclass" where
  "empty_class =
     \<lparr>ancestors = [], model_cls = None, schema = None, validate_attr = False,
      to_dict_attr = False, from_dict_attr = False, init_attr = None, declared_fields = [],
      members = []\<rparr>"

definition SimpleNamespace_class :: "'v pyclass" where
  "SimpleNamespace_class = empty_class\<lparr>init_attr := Some SimpleNamespace_init\<rparr>"

fun class_of :: "'v store \<Rightarrow> cref \<Rightarrow> 'v pyclass" where
  "class_of st (Heap c) = st c"
| "class_of st SimpleNamespace = SimpleNamespace_class"

definition mro :: "'v store \<Rightarrow> cref \<Rightarrow> cref list" where
  "mro st c = c # ancestors (class_of st c)"

fun first_some :: "'a option list \<Rightarrow> 'a option" where
  "first_some [] = None"
| "first_some (None # xs) = first_some xs"
| "first_some (Some x # xs) = Some x"

text \<open>Lookup of an attribute on a class: the first class of the \<^verbatim>\<open>__mro__\<close> whose own
  dictionary has it.\<close>

definition type_getattr :: "'v store \<Rightarrow> ('v pyclass \<Rightarrow> 'a option) \<Rightarrow> cref \<Rightarrow> 'a option" where
  "type_getattr st slot c = first_some (map (\<lambda>k. slot (class_of st k)) (mro st c))"

definition type_hasattr :: "'v store \<Rightarrow> ('v pyclass \<Rightarrow> bool) \<Rightarrow> cref \<Rightarrow> bool" where
  "type_hasattr st slot c = list_ex (\<lambda>k. slot (class_of st k)) (mro st c)"

text \<open>\<^verbatim>\<open>model_cls.__init__\<close>: always found, on \<^verbatim>\<open>object\<close> at the latest.\<close>

definition getattr_init :: "'v store \<Rightarrow> cref \<Rightarrow> 'v init_fn" where
  "getattr_init st c = (case type_getattr st init_attr c of None \<Rightarrow> Object_init | Some f \<Rightarrow> f)"

section \<open>The polymorphic field \<^verbatim>\<open>OneTypeOf\<close>\<close>

text \<open>
  \<^verbatim>\<open>OneTypeOf.__init__\<close> keeps the choices (a dict from hint to schema, here an association
  list read with \<open>map_of\<close>) and the two hinters; a hinter that is not given is \<^verbatim>\<open>None\<close>.
\<close>

record ('d, 's) OneTypeOf =
  choices :: "(string \<times> 's) list"
  load_hinter :: "('d \<Rightarrow> string) option"
  dump_hinter :: "('d \<Rightarrow> string) option"

text \<open>\<^verbatim>\<open>self._dump_hinter = dump_hinter or hinter\<close>: a function is true, \<^verbatim>\<open>None\<close> is false.\<close>

definition OneTypeOf_init ::
  "(string \<times> 's) list \<Rightarrow> ('d \<Rightarrow> string) option \<Rightarrow> ('d \<Rightarrow> string) option \<Rightarrow> ('d, 's) OneTypeOf" where
  "OneTypeOf_init chs hinter dump_hinter' =
     \<lparr>choices = chs, load_hinter = hinter,
      dump_hinter = (case dump_hinter' of Some f \<Rightarrow> Some f | None \<Rightarrow> hinter)\<rparr>"

definition serialization_selector :: "('d, 's) OneTypeOf \<Rightarrow> 'd \<Rightarrow> error + 's" where
  "serialization_selector self data =
     (case dump_hinter self of
        None \<Rightarrow> Inl (TypeError ''NoneType'')
      | Some h \<Rightarrow>
          (let hint = h data in
           case map_of (choices self) hint of
             None \<Rightarrow> Inl (ValidationError (CannotFindSchema hint (map fst (choices self))))
           | Some schema' \<Rightarrow> Inr schema'))"

definition deserialization_selector :: "('d, 's) OneTypeOf \<Rightarrow> 'd \<Rightarrow> error + 's" where
  "deserialization_selector self data =
     (case load_hinter self of
        None \<Rightarrow> Inl (TypeError ''NoneType'')
      | Some h \<Rightarrow>
          (let hint = h data in
           case map_of (choices self) hint of
             None \<Rightarrow> Inl (ValidationError (CannotFindSchema hint (map fst (choices self))))
           | Some schema' \<Rightarrow> Inr schema'))"

section \<open>The field loops of a schema\<close>

text \<open>
  Modelled from the spec: the field loop of \<^verbatim>\<open>Schema.load\<close> and \<^verbatim>\<open>Schema.validate\<close>
  (marshmallow is not part of the sources). Every declared field is looked up in the raw
  map; a required field that is missing and a value the field rejects each add an entry
  to the errors, and all fields are visited whatever the others did.
\<close>

fun unmarshal :: "(string \<times> 'v field_descriptor) list \<Rightarrow> 'v pydict \<Rightarrow> 'v pydict \<times> errors" where
  "unmarshal [] raw = (Map.empty, [])"
| "unmarshal ((name, f) # fs) raw =
     (let (items, errs) = unmarshal fs raw in
      case raw name of
        None \<Rightarrow>
          if required f then (items, (name, [''Missing data for required field.'']) # errs)
          else (items, errs)
      | Some v \<Rightarrow>
          (case deserialize f v of
             Inl msgs \<Rightarrow> (items, (name, msgs) # errs)
           | Inr w \<Rightarrow> (items(name \<mapsto> w), errs)))"

text \<open>
  Modelled from the spec: the field loop of \<^verbatim>\<open>Schema.dump\<close>. Every declared field that is
  present on the object is serialized; a field the object lacks is skipped, unless it
  has a default, which is then dumped as it is.
\<close>

fun marshal :: "(string \<times> 'v field_descriptor) list \<Rightarrow> 'v pydict \<Rightarrow> 'v pydict \<times> errors" where
  "marshal [] attrs = (Map.empty, [])"
| "marshal ((name, f) # fs) attrs =
     (let (items, errs) = marshal fs attrs in
      case attrs name of
        None \<Rightarrow>
          (case default_value f of
             None \<Rightarrow> (items, errs)
           | Some v \<Rightarrow> (items(name \<mapsto> v), errs))
      | Some v \<Rightarrow>
          (case serialize f v of
             Inl msgs \<Rightarrow> (items, (name, msgs) # errs)
           | Inr w \<Rightarrow> (items(name \<mapsto> w), errs)))"

section \<open>Attributes of an instance\<close>

text \<open>
  \<^verbatim>\<open>getattr(obj, k)\<close> looks \<open>k\<close> up on the class first. When it finds a data descriptor
  there, the descriptor computes the value, whatever the instance's \<^verbatim>\<open>__dict__\<close> holds:
  so do \<^verbatim>\<open>__class__\<close>, \<^verbatim>\<open>__dict__\<close> and \<^verbatim>\<open>__weakref__\<close> of every instance, and a
  property of the class body. Otherwise the entry of \<^verbatim>\<open>__dict__\<close> is the value, and only
  without one the attribute of the class. For a member of a class body this theory
  does not tell a property from a method and takes it for either.
\<close>

definition class_members :: "'v store \<Rightarrow> cref \<Rightarrow> string list" where
  "class_members st c = concat (map (\<lambda>k. members (class_of st k)) (mro st c))"

definition descriptor_names :: "'v store \<Rightarrow> cref \<Rightarrow> string list" where
  "descriptor_names st c = [''__class__'', ''__dict__'', ''__weakref__''] @ class_members st c"

text \<open>
  Names that start with two underscores are Python's own: \<^verbatim>\<open>object\<close> and
  \<^verbatim>\<open>SimpleNamespace\<close> give every instance attributes with such names (\<^verbatim>\<open>__init__\<close>,
  \<^verbatim>\<open>__doc__\<close>, \<^verbatim>\<open>__eq__\<close> and more, depending on the version of Python).
\<close>

definition special_name :: "string \<Rightarrow> bool" where
  "special_name k = (take 2 k = ''__'')"

text \<open>
  The names that may be found on the class of an instance when its \<^verbatim>\<open>__dict__\<close> has no
  entry: the special names, the members of the class bodies, and the attributes that the
  binders assign.
\<close>

definition class_attribute :: "'v store \<Rightarrow> cref \<Rightarrow> string \<Rightarrow> bool" where
  "class_attribute st c k =
     (special_name k \<or> k \<in> set (class_members st c)
      \<or> (k = ''schema'' \<and> type_getattr st schema c \<noteq> None)
      \<or> (k = ''model_cls'' \<and> type_getattr st model_cls c \<noteq> None)
      \<or> (k = ''_validate'' \<and> type_hasattr st validate_attr c)
      \<or> (k = ''to_dict'' \<and> type_hasattr st to_dict_attr c)
      \<or> (k = ''from_dict'' \<and> type_hasattr st from_dict_attr c))"

text \<open>
  The entry of the instance's \<^verbatim>\<open>__dict__\<close> that \<^verbatim>\<open>obj.k\<close> finds before the attribute of
  the class, for a name \<open>k\<close> that is not special: \<open>None\<close> when there is no entry. The
  lookup of a name that some class body of the \<^verbatim>\<open>__mro__\<close> defines is not followed, also
  when an assignment of a binder has replaced that member.
\<close>

definition instance_attr :: "'v store \<Rightarrow> 'v pyobj \<Rightarrow> string \<Rightarrow> error + 'v option" where
  "instance_attr st obj k =
     (if k \<in> set (class_members st (obj_class obj)) then Inl (Not_modelled k)
      else Inr (obj_dict obj k))"

text \<open>\<^verbatim>\<open>v()\<close>, a call without arguments of the value found under the name \<open>k\<close>. What a
  function returns is not described here.\<close>

fun call_value :: "string \<Rightarrow> 'v pyvalue \<Rightarrow> error + unit" where
  "call_value k (Data d) = Inl (TypeError k)"
| "call_value k (Function t r) = (case r of Some e \<Rightarrow> Inl e | None \<Rightarrow> Inr ())"
| "call_value k (Object t) = Inl (Not_modelled k)"

section \<open>The hooks of \<^verbatim>\<open>BaseSchema\<close>, and \<^verbatim>\<open>dump\<close>, \<^verbatim>\<open>validate\<close>\<close>

text \<open>
  The loop of both hooks, \<^verbatim>\<open>for key in additional_keys: valid_data[key] = ...\<close>, when
  the value of a key is its entry in the second dict.
\<close>

definition copy_additional :: "'v pydict \<Rightarrow> 'v pydict \<Rightarrow> 'v pydict" where
  "copy_additional valid_data source =
     (\<lambda>key. if key \<in> dom source - dom valid_data then source key else valid_data key)"

text \<open>
  \<^verbatim>\<open>BaseSchema.dump_additional_data\<close> (and the same method of \<^verbatim>\<open>ModelSchema\<close>): the keys
  of the object's \<^verbatim>\<open>__dict__\<close> that are not in \<open>valid_data\<close> are added with
  \<^verbatim>\<open>getattr(original_data, key)\<close>. That is the entry of \<^verbatim>\<open>__dict__\<close>, unless the key names a
  descriptor.
\<close>

definition dump_additional_data :: "'v store \<Rightarrow> 'v pydict \<Rightarrow> 'v pyobj \<Rightarrow> error + 'v pydict" where
  "dump_additional_data st valid_data original_data =
     (if list_ex (\<lambda>key. key \<in> dom (obj_dict original_data) - dom valid_data)
           (descriptor_names st (obj_class original_data))
      then Inl (Not_modelled ''getattr'')
      else Inr (copy_additional valid_data (obj_dict original_data)))"

text \<open>\<^verbatim>\<open>BaseSchema.load_additional_data\<close> (and the same method of \<^verbatim>\<open>ModelSchema\<close>).\<close>

definition load_additional_data :: "'v pydict \<Rightarrow> 'v pydict \<Rightarrow> 'v pydict" where
  "load_additional_data valid_data original_data =
     (\<lambda>key. if key \<in> dom original_data - dom valid_data then original_data key
            else valid_data key)"

text \<open>
  \<^verbatim>\<open>schema.validate(data)\<close>: the errors of the field loop, no hook.
\<close>

definition Schema_validate :: "'v store \<Rightarrow> cname \<Rightarrow> 'v pydict \<Rightarrow> errors" where
  "Schema_validate st S data = snd (unmarshal (declared_fields (st S)) data)"

text \<open>
  The value that \<^verbatim>\<open>dump\<close> reads for a declared field is \<^verbatim>\<open>getattr(obj, name)\<close>. This theory
  follows the dump of a field whose value is plain data of the instance's \<^verbatim>\<open>__dict__\<close>,
  and of a field that neither the instance nor its class has. What marshmallow does
  with a callable value, and what a field makes of an attribute of the class, is not
  described here.
\<close>

definition field_attribute_plain :: "'v pyvalue store \<Rightarrow> 'v pyvalue pyobj \<Rightarrow> string \<Rightarrow> bool" where
  "field_attribute_plain st obj name =
     (name \<notin> set (descriptor_names st (obj_class obj)) \<and>
      (case obj_dict obj name of
         Some (Data v) \<Rightarrow> True
       | Some other \<Rightarrow> False
       | None \<Rightarrow> \<not> class_attribute st (obj_class obj) name))"

text \<open>
  \<^verbatim>\<open>schema.dump(obj)\<close> for an instance of schema class \<open>S\<close>: the field loop, and when it
  has no error the hook \<^verbatim>\<open>dump_additional_data\<close>. It returns the pair (data, errors).
\<close>

definition Schema_dump ::
  "'v pyvalue store \<Rightarrow> cname \<Rightarrow> 'v pyvalue pyobj \<Rightarrow> error + ('v pyvalue pydict \<times> errors)" where
  "Schema_dump st S obj =
     (if \<not> list_all (\<lambda>(name, f). field_attribute_plain st obj name) (declared_fields (st S))
      then Inl (Not_modelled ''dump'')
      else
        let (valid_data, errs) = marshal (declared_fields (st S)) (obj_dict obj) in
        if errs \<noteq> [] then Inr (valid_data, errs)
        else
          case dump_additional_data st valid_data obj of
            Inl e \<Rightarrow> Inl e
          | Inr data \<Rightarrow> Inr (data, []))"

section \<open>The functions the binder installs\<close>

text \<open>
  \<^verbatim>\<open>instance.schema\<close> and then the method \<open>meth\<close> of it (\<^verbatim>\<open>dump\<close>, \<^verbatim>\<open>validate\<close>). An
  attribute of the instance itself hides the schema of the class; plain data and
  functions have no such method.
\<close>

definition getattr_schema :: "'v pyvalue store \<Rightarrow> 'v pyvalue pyobj \<Rightarrow> string \<Rightarrow> error + cname" where
  "getattr_schema st obj meth =
     (case instance_attr st obj ''schema'' of
        Inl e \<Rightarrow> Inl e
      | Inr (Some v) \<Rightarrow>
          (case v of Object t \<Rightarrow> Inl (Not_modelled meth) | other \<Rightarrow> Inl (AttributeError meth))
      | Inr None \<Rightarrow>
          (case type_getattr st schema (obj_class obj) of
             None \<Rightarrow> Inl (AttributeError ''schema'')
           | Some S \<Rightarrow> Inr S))"

text \<open>\<^verbatim>\<open>_BindSchema._to_dict\<close> (and \<^verbatim>\<open>BindSchema._to_dict\<close> of \<^verbatim>\<open>models/base.py\<close>, the same
  text).\<close>

definition to_dict :: "'v pyvalue store \<Rightarrow> 'v pyvalue pyobj \<Rightarrow> error + 'v pyvalue pydict" where
  "to_dict st inst =
     (case getattr_schema st inst ''dump'' of
        Inl e \<Rightarrow> Inl e
      | Inr S \<Rightarrow>
          (case Schema_dump st S inst of
             Inl e \<Rightarrow> Inl e
           | Inr (data, errs) \<Rightarrow>
               if errs \<noteq> [] then Inl (ValidationError (FieldErrors errs)) else Inr data))"

text \<open>
  The call \<^verbatim>\<open>instance.to_dict()\<close>: the attribute is looked up on the instance first. The
  value that a function found there returns goes on to \<^verbatim>\<open>schema.validate\<close>, where it is
  not followed.
\<close>

definition call_to_dict :: "'v pyvalue store \<Rightarrow> 'v pyvalue pyobj \<Rightarrow> error + 'v pyvalue pydict" where
  "call_to_dict st inst =
     (case instance_attr st inst ''to_dict'' of
        Inl e \<Rightarrow> Inl e
      | Inr (Some v) \<Rightarrow>
          (case call_value ''to_dict'' v of
             Inl e \<Rightarrow> Inl e
           | Inr u \<Rightarrow> Inl (Not_modelled ''to_dict''))
      | Inr None \<Rightarrow>
          if type_hasattr st to_dict_attr (obj_class inst) then to_dict st inst
          else Inl (AttributeError ''to_dict''))"

text \<open>
  \<^verbatim>\<open>_BindSchema._validate\<close>: \<^verbatim>\<open>instance.schema.validate(instance.to_dict())\<close>. Python
  evaluates \<^verbatim>\<open>instance.schema.validate\<close> before the argument. The wrapper of
  \<^verbatim>\<open>models/base.py\<close> has the same two statements inline, with \<^verbatim>\<open>self\<close> for \<^verbatim>\<open>instance\<close>.
\<close>

definition validate :: "'v pyvalue store \<Rightarrow> 'v pyvalue pyobj \<Rightarrow> error + unit" where
  "validate st inst =
     (case getattr_schema st inst ''validate'' of
        Inl e \<Rightarrow> Inl e
      | Inr S \<Rightarrow>
          (case call_to_dict st inst of
             Inl e \<Rightarrow> Inl e
           | Inr data \<Rightarrow>
               (let errs = Schema_validate st S data in
                if errs \<noteq> [] then Inl (ValidationError (FieldErrors errs)) else Inr ())))"

text \<open>The call \<^verbatim>\<open>self._validate()\<close>: a function found on the instance is called in
  place of the method of the class, and the validation does not take place.\<close>

definition call_validate :: "'v pyvalue store \<Rightarrow> 'v pyvalue pyobj \<Rightarrow> error + unit" where
  "call_validate st inst =
     (case instance_attr st inst ''_validate'' of
        Inl e \<Rightarrow> Inl e
      | Inr (Some v) \<Rightarrow> call_value ''_validate'' v
      | Inr None \<Rightarrow>
          if type_hasattr st validate_attr (obj_class inst) then validate st inst
          else Inl (AttributeError ''_validate''))"

text \<open>
  A call of a constructor on a new instance with keyword arguments. The wrappers are
  \<^verbatim>\<open>def _decorated(self, *args, **kwargs)\<close>: a keyword named \<^verbatim>\<open>self\<close> repeats the first
  parameter, which Python refuses before the body runs. Then the wrapped constructor
  runs, then the validation.
\<close>

fun call_init ::
  "'v pyvalue store \<Rightarrow> 'v pyvalue init_fn \<Rightarrow> 'v pyvalue pyobj \<Rightarrow> 'v pyvalue pydict
     \<Rightarrow> error + 'v pyvalue pyobj" where
  "call_init st Object_init self kwargs =
     (if dom kwargs \<noteq> {} then Inl (TypeError ''__init__'') else Inr self)"
| "call_init st SimpleNamespace_init self kwargs =
     Inr (self\<lparr>obj_dict := obj_dict self ++ kwargs\<rparr>)"
| "call_init st (Custom_init body) self kwargs =
     (case body kwargs of
        Inl e \<Rightarrow> Inl e
      | Inr attrs \<Rightarrow> Inr (self\<lparr>obj_dict := attrs\<rparr>))"
| "call_init st (Decorated init_method) self kwargs =
     (if ''self'' \<in> dom kwargs then Inl (TypeError ''self'')
      else
        case call_init st init_method self kwargs of
          Inl e \<Rightarrow> Inl e
        | Inr self' \<Rightarrow>
            (case call_validate st self' of
               Inl e \<Rightarrow> Inl e
             | Inr u \<Rightarrow> Inr self'))"
| "call_init st (Models_decorated init_method) self kwargs =
     (if ''self'' \<in> dom kwargs then Inl (TypeError ''self'')
      else
        case call_init st init_method self kwargs of
          Inl e \<Rightarrow> Inl e
        | Inr self' \<Rightarrow>
            (case validate st self' of
               Inl e \<Rightarrow> Inl e
             | Inr u \<Rightarrow> Inr self'))"

text \<open>\<^verbatim>\<open>cls(**kwargs)\<close>: a new instance, then the \<^verbatim>\<open>__init__\<close> found on the class.\<close>

definition instantiate ::
  "'v pyvalue store \<Rightarrow> cref \<Rightarrow> 'v pyvalue pydict \<Rightarrow> error + 'v pyvalue pyobj" where
  "instantiate st c kwargs =
     call_init st (getattr_init st c) \<lparr>obj_class = c, obj_dict = Map.empty\<rparr> kwargs"

text \<open>
  \<^verbatim>\<open>BaseSchema.make_model\<close> (and the same of \<^verbatim>\<open>ModelSchema\<close>): \<^verbatim>\<open>self.model_cls(**data)\<close>,
  with \<^verbatim>\<open>model_cls\<close> looked up on the class of the schema instance when the hook runs.
\<close>

definition make_model ::
  "'v pyvalue store \<Rightarrow> cname \<Rightarrow> 'v pyvalue pydict \<Rightarrow> error + 'v pyvalue pyobj" where
  "make_model st S data =
     (case type_getattr st model_cls (Heap S) of
        None \<Rightarrow> Inl (AttributeError ''model_cls'')
      | Some NoneValue \<Rightarrow> Inl (TypeError ''model_cls'')
      | Some (ClassValue c) \<Rightarrow> instantiate st c data)"

text \<open>
  \<^verbatim>\<open>schema.load(data)\<close> for an instance of schema class \<open>S\<close>: the field loop, and when it
  has no error the hooks \<^verbatim>\<open>load_additional_data\<close> and \<^verbatim>\<open>make_model\<close>, in this order
  (marshmallow runs the hooks of one kind in the alphabetical order of their names). An
  exception of the model's constructor reaches the caller. For a \<^verbatim>\<open>ValidationError\<close>
  marshmallow does so by handing its messages back as the errors of \<^verbatim>\<open>load\<close>, which
  \<^verbatim>\<open>_from_dict\<close> raises again; both steps are one here.
\<close>

definition Schema_load ::
  "'v pyvalue store \<Rightarrow> cname \<Rightarrow> 'v pyvalue pydict \<Rightarrow> error + ('v pyvalue loaded \<times> errors)" where
  "Schema_load st S data =
     (let (valid_data, errs) = unmarshal (declared_fields (st S)) data in
      if errs \<noteq> [] then Inr (Partial valid_data, errs)
      else
        case make_model st S (load_additional_data valid_data data) of
          Inl e \<Rightarrow> Inl e
        | Inr m \<Rightarrow> Inr (Model m, []))"

text \<open>\<^verbatim>\<open>_BindSchema._from_dict\<close> (and \<^verbatim>\<open>BindSchema._from_dict\<close> of \<^verbatim>\<open>models/base.py\<close>, the
  same text).\<close>

definition from_dict ::
  "'v pyvalue store \<Rightarrow> cname \<Rightarrow> 'v pyvalue pydict \<Rightarrow> error + 'v pyvalue loaded" where
  "from_dict st decorated_cls dct =
     (case type_getattr st schema (Heap decorated_cls) of
        None \<Rightarrow> Inl (AttributeError ''schema'')
      | Some S \<Rightarrow>
          (case Schema_load st S dct of
             Inl e \<Rightarrow> Inl e
           | Inr (data, errs) \<Rightarrow>
               if errs \<noteq> [] then Inl (ValidationError (FieldErrors errs)) else Inr data))"

section \<open>The binders\<close>

text \<open>
  \<^verbatim>\<open>_BindSchema.__call__\<close> of \<^verbatim>\<open>validation/base.py\<close>, that is
  \<^verbatim>\<open>bind_schema(schema_cls)(model_cls)\<close>. The test reads the schema class's own
  \<^verbatim>\<open>__dict__\<close>; the six assignments follow in the order of the source.
\<close>

definition bind_schema :: "cname \<Rightarrow> cname \<Rightarrow> 'v store \<Rightarrow> error + 'v store" where
  "bind_schema schema_cls mcls st =
     (case model_cls (st schema_cls) of
        Some (ClassValue bound) \<Rightarrow> Inl (ValueError schema_cls bound)
      | _ \<Rightarrow>
          (let st1 = st(schema_cls := (st schema_cls)\<lparr>model_cls := Some (ClassValue (Heap mcls))\<rparr>);
               st2 = st1(mcls := (st1 mcls)\<lparr>schema := Some schema_cls\<rparr>);
               st3 = st2(mcls := (st2 mcls)\<lparr>validate_attr := True\<rparr>);
               st4 = st3(mcls := (st3 mcls)\<lparr>to_dict_attr := True\<rparr>);
               st5 = st4(mcls := (st4 mcls)\<lparr>from_dict_attr := True\<rparr>);
               st6 = st5(mcls := (st5 mcls)\<lparr>init_attr := Some (Decorated (getattr_init st5 (Heap mcls)))\<rparr>)
           in Inr st6))"

text \<open>\<^verbatim>\<open>BindSchema.__call__\<close> of \<^verbatim>\<open>models/base.py\<close>: no test, and no \<^verbatim>\<open>_validate\<close>.\<close>

definition models_bind_schema :: "cname \<Rightarrow> cname \<Rightarrow> 'v store \<Rightarrow> error + 'v store" where
  "models_bind_schema schema_cls cls st =
     (let st1 = st(schema_cls := (st schema_cls)\<lparr>model_cls := Some (ClassValue (Heap cls))\<rparr>);
          st2 = st1(cls := (st1 cls)\<lparr>schema := Some schema_cls\<rparr>);
          st3 = st2(cls := (st2 cls)\<lparr>to_dict_attr := True\<rparr>);
          st4 = st3(cls := (st3 cls)\<lparr>from_dict_attr := True\<rparr>);
          st5 = st4(cls := (st4 cls)\<lparr>init_attr := Some (Models_decorated (getattr_init st4 (Heap cls)))\<rparr>)
      in Inr st5)"

text \<open>The store after a statement that may raise: an exception of the binder is raised
  before its first assignment, so the store is then the one before.\<close>

definition store_after :: "'v store \<Rightarrow> error + 'v store \<Rightarrow> 'v store" where
  "store_after st r = (case r of Inl e \<Rightarrow> st | Inr st' \<Rightarrow> st')"

section \<open>Class statements and the classes of the modules\<close>

text \<open>
  \<^verbatim>\<open>class name(base): ...\<close> with the fields the body declares: a new class object whose
  own dictionary has none of the six entries. The declared fields are the inherited
  ones that the body does not declare again, then its own.
\<close>

definition class_def ::
  "cname \<Rightarrow> cref \<Rightarrow> (string \<times> 'v field_descriptor) list \<Rightarrow> 'v store \<Rightarrow> 'v store" where
  "class_def name base own_fields st =
     st(name := empty_class
          \<lparr>ancestors := mro st base,
           declared_fields :=
             filter (\<lambda>(n, f). n \<notin> fst ` set own_fields) (declared_fields (class_of st base))
             @ own_fields\<rparr>)"

text \<open>
  The classes the two modules define: marshmallow's \<^verbatim>\<open>Schema\<close>, \<^verbatim>\<open>BaseSchema\<close> and
  \<^verbatim>\<open>ModelSchema\<close> with \<^verbatim>\<open>model_cls = SimpleNamespace\<close> in their own body, and
  \<^verbatim>\<open>BaseModel(SimpleNamespace)\<close>.
\<close>

definition initial_store :: "'v store" where
  "initial_store =
     (\<lambda>c. empty_class)
       (''Schema'' := empty_class,
        ''BaseSchema'' := empty_class
           \<lparr>ancestors := [Heap ''Schema''], model_cls := Some (ClassValue SimpleNamespace)\<rparr>,
        ''ModelSchema'' := empty_class
           \<lparr>ancestors := [Heap ''Schema''], model_cls := Some (ClassValue SimpleNamespace)\<rparr>,
        ''BaseModel'' := empty_class\<lparr>ancestors := [SimpleNamespace]\<rparr>)"

section \<open>Every failing field, as the spec words it\<close>

text \<open>
  Modelled from the spec: what one declared field reports for a raw map (a required field
  that is missing, a value that fails validation), and the errors of a map: the report
  of every declared field that has one.
\<close>

definition field_error :: "'v field_descriptor \<Rightarrow> 'v option \<Rightarrow> string list option" where
  "field_error f raw =
     (case raw of
        None \<Rightarrow> if required f then Some [''Missing data for required field.''] else None
      | Some v \<Rightarrow> (case deserialize f v of Inl msgs \<Rightarrow> Some msgs | Inr w \<Rightarrow> None))"

definition field_errors :: "(string \<times> 'v field_descriptor) list \<Rightarrow> 'v pydict \<Rightarrow> errors" where
  "field_errors fs raw =
     concat (map (\<lambda>(name, f). case field_error f (raw name) of
                                 None \<Rightarrow> []
                               | Some msgs \<Rightarrow> [(name, msgs)]) fs)"

section \<open>The classes of the tests\<close>

text \<open>Simple Python values for the examples: \<^verbatim>\<open>None\<close>, booleans, integers and strings.\<close>

datatype pyval = PNone | PBool bool | PInt int | PStr string

text \<open>Python's \<^verbatim>\<open>str\<close> on these values.\<close>

fun str_nat :: "nat \<Rightarrow> string" where
  "str_nat n =
     (if n < 10 then [''0123456789'' ! n]
      else str_nat (n div 10) @ [''0123456789'' ! (n mod 10)])"

declare str_nat.simps [simp del]

definition str_int :: "int \<Rightarrow> string" where
  "str_int i = (if i < 0 then CHR ''-'' # str_nat (nat (- i)) else str_nat (nat i))"

fun py_str :: "pyval \<Rightarrow> string" where
  "py_str PNone = ''None''"
| "py_str (PBool b) = (if b then ''True'' else ''False'')"
| "py_str (PInt i) = str_int i"
| "py_str (PStr s) = s"

text \<open>
  The field \<^verbatim>\<open>fields.String\<close> that \<^verbatim>\<open>PersonSchema\<close> of \<^verbatim>\<open>test_models.py\<close> declares, as
  marshmallow 2 defines it: \<^verbatim>\<open>None\<close> is refused on load and kept on dump; loading accepts
  a string only; dumping gives the text of the value. It has no default.
\<close>

definition String_field :: "bool \<Rightarrow> pyval pyvalue field_descriptor" where
  "String_field req =
     \<lparr>required = req,
      default_value = None,
      deserialize = (\<lambda>v. case v of
                          Data PNone \<Rightarrow> Inl [''Field may not be null.'']
                        | Data (PStr s) \<Rightarrow> Inr (Data (PStr s))
                        | other \<Rightarrow> Inl [''Not a valid string.'']),
      serialize = (\<lambda>v. case v of
                        Data PNone \<Rightarrow> Inr (Data PNone)
                      | Data d \<Rightarrow> Inr (Data (PStr (py_str d)))
                      | Function t r \<Rightarrow> Inr (Data (PStr t))
                      | Object t \<Rightarrow> Inr (Data (PStr t)))\<rparr>"

text \<open>
  \<^verbatim>\<open>class PersonSchema(BaseSchema): name = fields.String(required=True)\<close> and
  \<^verbatim>\<open>class Person(BaseModel): pass\<close>, before and after \<^verbatim>\<open>@bind_schema(PersonSchema)\<close>.
\<close>

definition person_classes :: "pyval pyvalue store" where
  "person_classes =
     class_def ''Person'' (Heap ''BaseModel'') []
       (class_def ''PersonSchema'' (Heap ''BaseSchema'') [(''name'', String_field True)]
          initial_store)"

definition person_store :: "pyval pyvalue store" where
  "person_store =
     store_after person_classes (bind_schema ''PersonSchema'' ''Person'' person_classes)"

text \<open>
  The classes of \<^verbatim>\<open>test_double_binding\<close> and \<^verbatim>\<open>test_schema_reusing\<close>:
  \<^verbatim>\<open>_DummySchema(BaseSchema)\<close>, \<^verbatim>\<open>_DummyModel(BaseModel)\<close> and \<^verbatim>\<open>_AnotherModel(BaseModel)\<close>,
  all with an empty body.
\<close>

definition dummy_classes :: "pyval pyvalue store" where
  "dummy_classes =
     class_def ''_AnotherModel'' (Heap ''BaseModel'') []
       (class_def ''_DummyModel'' (Heap ''BaseModel'') []
          (class_def ''_DummySchema'' (Heap ''BaseSchema'') [] initial_store))"

text \<open>
  The same two model classes for \<^verbatim>\<open>models/base.py\<close>, with a schema
  \<^verbatim>\<open>class NameSchema(ModelSchema): name = fields.String(required=True)\<close>, bound to the
  first and then to the second.
\<close>

definition models_classes :: "pyval pyvalue store" where
  "models_classes =
     class_def ''_AnotherModel'' (Heap ''BaseModel'') []
       (class_def ''_DummyModel'' (Heap ''BaseModel'') []
          (class_def ''NameSchema'' (Heap ''ModelSchema'') [(''name'', String_field True)]
             initial_store))"

definition models_bound_twice :: "pyval pyvalue store" where
  "models_bound_twice =
     store_after models_classes
       (models_bind_schema ''NameSchema'' ''_AnotherModel''
          (store_after models_classes
             (models_bind_schema ''NameSchema'' ''_DummyModel'' models_classes)))"

text \<open>
  A schema with two required fields,
  \<^verbatim>\<open>class FullNameSchema(BaseSchema): first = fields.String(required=True);
  last = fields.String(required=True)\<close>, bound to \<^verbatim>\<open>class FullName(BaseModel): pass\<close>.
\<close>

definition names_classes :: "pyval pyvalue store" where
  "names_classes =
     class_def ''FullName'' (Heap ''BaseModel'') []
       (class_def ''FullNameSchema'' (Heap ''BaseSchema'')
          [(''first'', String_field True), (''last'', String_field True)]
          initial_store)"

definition names_store :: "pyval pyvalue store" where
  "names_store =
     store_after names_classes (bind_schema ''FullNameSchema'' ''FullName'' names_classes)"

text \<open>
  A schema whose field has a default,
  \<^verbatim>\<open>class TitleSchema(BaseSchema): title = fields.String(default="untitled")\<close>, bound to
  \<^verbatim>\<open>class Title(BaseModel): pass\<close>.
\<close>

definition title_classes :: "pyval pyvalue store" where
  "title_classes =
     class_def ''Title'' (Heap ''BaseModel'') []
       (class_def ''TitleSchema'' (Heap ''BaseSchema'')
          [(''title'', (String_field False)\<lparr>default_value := Some (Data (PStr ''untitled''))\<rparr>)]
          initial_store)"

definition title_store :: "pyval pyvalue store" where
  "title_store =
     store_after title_classes (bind_schema ''TitleSchema'' ''Title'' title_classes)"

section \<open>Lemmas: the store after a binding, the installed functions, the field loops\<close>

subsection \<open>The store after a binding\<close>

lemma type_getattr_own:
  "slot (st c) = Some x \<Longrightarrow> type_getattr st slot (Heap c) = Some x"
  by (simp add: type_getattr_def mro_def)

lemma type_hasattr_own:
  "slot (st c) \<Longrightarrow> type_hasattr st slot (Heap c)"
  by (simp add: type_hasattr_def mro_def)

lemma type_getattr_cong:
  "(\<And>c. slot (st c) = slot (st' c)) \<Longrightarrow> (\<And>c. ancestors (st c) = ancestors (st' c)) \<Longrightarrow>
   type_getattr st slot k = type_getattr st' slot k"
proof -
  assume a: "\<And>c. slot (st c) = slot (st' c)" and b: "\<And>c. ancestors (st c) = ancestors (st' c)"
  have c: "\<And>k. slot (class_of st k) = slot (class_of st' k)"
    subgoal for k by (cases k) (simp_all add: a)
    done
  have d: "mro st k = mro st' k"
    by (cases k) (simp_all add: mro_def b)
  show ?thesis by (simp add: type_getattr_def c d)
qed

lemma bind_schema_Inr:
  assumes "bind_schema S M st0 = Inr st"
  shows "schema (st M) = Some S"
    and "validate_attr (st M)"
    and "to_dict_attr (st M)"
    and "from_dict_attr (st M)"
    and "init_attr (st M) = Some (Decorated (getattr_init st0 (Heap M)))"
    and "model_cls (st S) = Some (ClassValue (Heap M))"
    and "declared_fields (st c) = declared_fields (st0 c)"
    and "ancestors (st c) = ancestors (st0 c)"
    and "members (st c) = members (st0 c)"
proof -
  let ?st5 = "(st0(S := (st0 S)\<lparr>model_cls := Some (ClassValue (Heap M))\<rparr>))
      (M := ((st0(S := (st0 S)\<lparr>model_cls := Some (ClassValue (Heap M))\<rparr>)) M)
         \<lparr>schema := Some S, validate_attr := True, to_dict_attr := True, from_dict_attr := True\<rparr>)"
  have i: "getattr_init ?st5 (Heap M) = getattr_init st0 (Heap M)"
    unfolding getattr_init_def
    by (subst type_getattr_cong [of init_attr ?st5 st0]) simp_all
  have st: "st = ?st5(M := (?st5 M)\<lparr>init_attr := Some (Decorated (getattr_init st0 (Heap M)))\<rparr>)"
    using assms i
    by (auto simp add: bind_schema_def Let_def split: option.splits cls_value.splits)
  show "schema (st M) = Some S" "validate_attr (st M)" "to_dict_attr (st M)" "from_dict_attr (st M)"
    "init_attr (st M) = Some (Decorated (getattr_init st0 (Heap M)))"
    "model_cls (st S) = Some (ClassValue (Heap M))"
    "declared_fields (st c) = declared_fields (st0 c)"
    "ancestors (st c) = ancestors (st0 c)"
    "members (st c) = members (st0 c)"
    by (simp_all add: st)
qed

subsection \<open>The installed functions on an instance of a bound class\<close>

lemma call_init_class:
  "call_init st f self kw = Inr m \<Longrightarrow> obj_class m = obj_class self"
  by (induction f arbitrary: m)
     (auto split: if_splits sum.splits)

lemma instantiate_class:
  "instantiate st c kw = Inr m \<Longrightarrow> obj_class m = c"
  by (auto simp add: instantiate_def dest: call_init_class)


subsection \<open>The field loops\<close>

lemma unmarshal_errors: "snd (unmarshal fs raw) = field_errors fs raw"
  by (induction fs)
     (auto simp add: field_errors_def field_error_def split: prod.splits option.splits sum.splits)

lemma unmarshal_cong:
  "(\<And>n. n \<in> fst ` set fs \<Longrightarrow> raw n = raw' n) \<Longrightarrow> unmarshal fs raw = unmarshal fs raw'"
  by (induction fs) (auto split: prod.splits option.splits sum.splits)

lemma marshal_cong:
  "(\<And>n. n \<in> fst ` set fs \<Longrightarrow> a n = a' n) \<Longrightarrow> marshal fs a = marshal fs a'"
  by (induction fs) (auto split: prod.splits option.splits sum.splits)

lemma unmarshal_dom: "fst (unmarshal fs raw) n = Some w \<Longrightarrow> n \<in> fst ` set fs"
  by (induction fs arbitrary: w)
     (auto split: prod.splits option.splits sum.splits if_splits)



lemma unmarshal_required:
  "snd (unmarshal fs raw) = [] \<Longrightarrow> (n, f) \<in> set fs \<Longrightarrow> required f \<Longrightarrow> raw n \<noteq> None"
  by (induction fs)
     (auto split: prod.splits option.splits sum.splits if_splits)

lemma from_dict_own:
  assumes "schema (st M) = Some S" and "declared_fields (st S) = fs"
    and "model_cls (st S) = Some (ClassValue c)"
  shows "from_dict st M d =
     (case unmarshal fs d of
        (vd, errs) \<Rightarrow>
          if errs \<noteq> [] then Inl (ValidationError (FieldErrors errs))
          else (case instantiate st c (load_additional_data vd d) of
                  Inl e \<Rightarrow> Inl e
                | Inr m \<Rightarrow> Inr (Model m)))"
  using assms
  by (auto simp add: from_dict_def type_getattr_own Schema_load_def make_model_def
      split: prod.splits sum.splits)

lemma from_dict_bound:
  assumes "bind_schema S M st0 = Inr st"
  shows "from_dict st M d =
     (case unmarshal (declared_fields (st0 S)) d of
        (vd, errs) \<Rightarrow>
          if errs \<noteq> [] then Inl (ValidationError (FieldErrors errs))
          else (case instantiate st (Heap M) (load_additional_data vd d) of
                  Inl e \<Rightarrow> Inl e
                | Inr m \<Rightarrow> Inr (Model m)))"
  using bind_schema_Inr(1,6,7) [OF assms]
  by (intro from_dict_own) simp_all

lemma models_bind_schema_Inr:
  assumes "models_bind_schema S M st0 = Inr st"
  shows "schema (st M) = Some S"
    and "to_dict_attr (st M)"
    and "from_dict_attr (st M)"
    and "init_attr (st M) = Some (Models_decorated (getattr_init st0 (Heap M)))"
    and "model_cls (st S) = Some (ClassValue (Heap M))"
    and "declared_fields (st c) = declared_fields (st0 c)"
    and "ancestors (st c) = ancestors (st0 c)"
    and "c \<noteq> M \<Longrightarrow> schema (st c) = schema (st0 c)"
proof -
  let ?st4 = "(st0(S := (st0 S)\<lparr>model_cls := Some (ClassValue (Heap M))\<rparr>))
      (M := ((st0(S := (st0 S)\<lparr>model_cls := Some (ClassValue (Heap M))\<rparr>)) M)
         \<lparr>schema := Some S, to_dict_attr := True, from_dict_attr := True\<rparr>)"
  have i: "getattr_init ?st4 (Heap M) = getattr_init st0 (Heap M)"
    unfolding getattr_init_def
    by (subst type_getattr_cong [of init_attr ?st4 st0]) simp_all
  have st: "st = ?st4(M := (?st4 M)\<lparr>init_attr := Some (Models_decorated (getattr_init st0 (Heap M)))\<rparr>)"
    using assms i
    by (auto simp add: models_bind_schema_def Let_def)
  show "schema (st M) = Some S" "to_dict_attr (st M)" "from_dict_attr (st M)"
    "init_attr (st M) = Some (Models_decorated (getattr_init st0 (Heap M)))"
    "model_cls (st S) = Some (ClassValue (Heap M))"
    "declared_fields (st c) = declared_fields (st0 c)"
    "ancestors (st c) = ancestors (st0 c)"
    "c \<noteq> M \<Longrightarrow> schema (st c) = schema (st0 c)"
    by (simp_all add: st)
qed

lemma from_dict_Inr_class:
  assumes "schema (st M) = Some S" and "model_cls (st S) = Some (ClassValue c)"
    and "from_dict st M d = Inr x"
  shows "\<exists>m. x = Model m \<and> obj_class m = c"
  using assms(3) instantiate_class [of st c]
  by (auto simp add: from_dict_own [OF assms(1) refl assms(2)]
      split: prod.splits if_splits sum.splits)

lemma field_errors_set:
  "set (field_errors fs raw)
     = {(n, msgs). \<exists>f. (n, f) \<in> set fs \<and> field_error f (raw n) = Some msgs}"
  by (induction fs) (auto simp add: field_errors_def split: option.splits)




lemma marshal_dom: "fst (marshal fs a) n = Some w \<Longrightarrow> n \<in> fst ` set fs"
  by (induction fs arbitrary: w)
     (auto split: prod.splits option.splits sum.splits if_splits)



subsection \<open>What a construction that returns has checked\<close>


lemma call_validate_scope:
  assumes cv: "call_validate st m = Inr ()" and nv: "obj_dict m ''_validate'' = None"
  shows "obj_dict m ''schema'' = None" and "obj_dict m ''to_dict'' = None"
    and "dom (obj_dict m) \<inter> set (descriptor_names st (obj_class m)) = {}"
    and "\<exists>S. type_getattr st schema (obj_class m) = Some S
           \<and> list_all (\<lambda>(n, f). field_attribute_plain st m n) (declared_fields (st S))"
proof -
  show "obj_dict m ''schema'' = None" "obj_dict m ''to_dict'' = None"
    using cv nv
    by (auto simp add: call_validate_def instance_attr_def validate_def getattr_schema_def
        call_to_dict_def split: if_splits sum.splits option.splits pyvalue.splits)
  obtain S vd where s: "type_getattr st schema (obj_class m) = Some S"
    and pl: "list_all (\<lambda>(n, f). field_attribute_plain st m n) (declared_fields (st S))"
    and mk: "marshal (declared_fields (st S)) (obj_dict m) = (vd, [])"
    and ad: "\<not> list_ex (\<lambda>key. key \<in> dom (obj_dict m) - dom vd) (descriptor_names st (obj_class m))"
    using cv nv
    by (auto simp add: call_validate_def instance_attr_def validate_def getattr_schema_def
        call_to_dict_def to_dict_def Schema_dump_def dump_additional_data_def Let_def
        split: if_splits sum.splits option.splits prod.splits pyvalue.splits)
  show "\<exists>S. type_getattr st schema (obj_class m) = Some S
           \<and> list_all (\<lambda>(n, f). field_attribute_plain st m n) (declared_fields (st S))"
    using s pl by blast
  show "dom (obj_dict m) \<inter> set (descriptor_names st (obj_class m)) = {}"
  proof (rule ccontr)
    assume "dom (obj_dict m) \<inter> set (descriptor_names st (obj_class m)) \<noteq> {}"
    then obtain k where k: "k \<in> dom (obj_dict m)" "k \<in> set (descriptor_names st (obj_class m))"
      by blast
    have "k \<in> dom vd" using ad k by (auto simp add: list_ex_iff)
    then obtain w where "vd k = Some w" by blast
    then have "k \<in> fst ` set (declared_fields (st S))"
      using marshal_dom [of "declared_fields (st S)" "obj_dict m" k w] mk by simp
    then have "field_attribute_plain st m k" using pl by (auto simp add: list_all_iff)
    then show False using k(2) by (simp add: field_attribute_plain_def)
  qed
qed


text \<open>Unfolding rules for evaluating the code on the stores of the examples.\<close>

lemmas store_eval =
  store_after_def bind_schema_def models_bind_schema_def class_def_def initial_store_def
  empty_class_def SimpleNamespace_class_def Let_def getattr_init_def type_getattr_def
  type_hasattr_def mro_def

lemmas api_eval =
  from_dict_def Schema_load_def make_model_def instantiate_def call_validate_def validate_def
  call_to_dict_def to_dict_def getattr_schema_def Schema_dump_def Schema_validate_def
  load_additional_data_def dump_additional_data_def copy_additional_def String_field_def
  instance_attr_def class_members_def descriptor_names_def class_attribute_def
  special_name_def field_attribute_plain_def


lemma names_bind:
  "bind_schema ''FullNameSchema'' ''FullName'' names_classes = Inr names_store"
  by (simp add: names_store_def names_classes_def store_eval)


lemma names_fields:
  "declared_fields (names_classes ''FullNameSchema'')
     = [(''first'', String_field True), (''last'', String_field True)]"
  by (simp add: names_classes_def store_eval)


section \<open>The polymorphic field: claims C10 and C6\<close>

text \<open>
  Claim C10. A \<^verbatim>\<open>OneTypeOf\<close> field constructed without a \<^verbatim>\<open>dump_hinter\<close> uses the load
  hinter for serialization too: for every value, the selector used on dump gives the
  schema (or the error) that the selector used on load gives for it.
\<close>

theorem dump_hinter_defaults_to_hinter:
  "serialization_selector (OneTypeOf_init chs hinter None) v
     = deserialization_selector (OneTypeOf_init chs hinter None) v"
  by (simp add: serialization_selector_def deserialization_selector_def OneTypeOf_init_def
      split: option.splits)

theorem dump_hinter_defaults_to_hinter_witness:
  "serialization_selector
     (OneTypeOf_init [(''Book'', 1::nat), (''Album'', 2)]
        (Some (\<lambda>d::string list. if ''author'' \<in> set d then ''Book'' else ''Album'')) None)
     [''title'', ''author''] = Inr 1
   \<and> deserialization_selector
     (OneTypeOf_init [(''Book'', 1::nat), (''Album'', 2)]
        (Some (\<lambda>d::string list. if ''author'' \<in> set d then ''Book'' else ''Album'')) None)
     [''title'', ''author''] = Inr 1"
  using dump_hinter_defaults_to_hinter
    [of "[(''Book'', 1::nat), (''Album'', 2)]"
        "Some (\<lambda>d::string list. if ''author'' \<in> set d then ''Book'' else ''Album'')"
        "[''title'', ''author'']"]
  by (simp add: deserialization_selector_def OneTypeOf_init_def)

text \<open>
  Claim C6 says that a hint absent from the choices fails with an error of a type other
  than \<^verbatim>\<open>ValidationError\<close>. The selectors raise \<^verbatim>\<open>ValidationError\<close> itself: with the only
  choice \<^verbatim>\<open>Book\<close> and the hinter of the docstring, data without an author is hinted
  \<^verbatim>\<open>Album\<close>, and the error is a \<^verbatim>\<open>ValidationError\<close>.
\<close>

theorem selector_unknown_hint_counterexample:
  "deserialization_selector
     (OneTypeOf_init [(''Book'', 1::nat)]
        (Some (\<lambda>d::string list. if ''author'' \<in> set d then ''Book'' else ''Album'')) None)
     [''title'']
   = Inl (ValidationError (CannotFindSchema ''Album'' [''Book'']))"
  by (simp add: deserialization_selector_def OneTypeOf_init_def)

text \<open>
  Claim C6, amended. For every polymorphic field and every input whose load hinter
  returns a hint absent from the choices, the selector used on load fails with
  \<^verbatim>\<open>ValidationError\<close>, whose message names the hint and the keys of the choices; the
  selector used on dump does the same with the dump hinter.
\<close>

theorem selector_unknown_hint:
  "(load_hinter f = Some h \<and> map_of (choices f) (h d) = None \<longrightarrow>
      deserialization_selector f d
        = Inl (ValidationError (CannotFindSchema (h d) (map fst (choices f)))))
   \<and> (dump_hinter f = Some g \<and> map_of (choices f) (g d) = None \<longrightarrow>
      serialization_selector f d
        = Inl (ValidationError (CannotFindSchema (g d) (map fst (choices f)))))"
  by (simp add: deserialization_selector_def serialization_selector_def)

theorem selector_unknown_hint_witness:
  "deserialization_selector
     (OneTypeOf_init [(''Book'', 1::nat), (''Album'', 2)] (Some (\<lambda>d::string. d)) None) ''Film''
     = Inl (ValidationError (CannotFindSchema ''Film'' [''Book'', ''Album'']))
   \<and> serialization_selector
     (OneTypeOf_init [(''Book'', 1::nat), (''Album'', 2)] (Some (\<lambda>d::string. d)) None) ''Film''
     = Inl (ValidationError (CannotFindSchema ''Film'' [''Book'', ''Album'']))"
  using selector_unknown_hint
    [of "OneTypeOf_init [(''Book'', 1::nat), (''Album'', 2)] (Some (\<lambda>d::string. d)) None"
        "\<lambda>d::string. d" "''Film''" "\<lambda>d::string. d"]
  by (simp add: OneTypeOf_init_def)

section \<open>The binder of \<^verbatim>\<open>validation/base.py\<close>: claims C2 and C9\<close>

lemma bind_schema_unbound:
  "model_cls (st S) = None \<Longrightarrow> \<exists>st'. bind_schema S M st = Inr st'"
  by (simp add: bind_schema_def Let_def)

lemma bind_schema_keeps_model_cls:
  "bind_schema S M st = Inr st' \<Longrightarrow> S' \<noteq> S \<Longrightarrow> model_cls (st' S') = model_cls (st S')"
  by (auto simp add: bind_schema_def Let_def split: option.splits cls_value.splits)

lemma bind_schema_again:
  "\<exists>c. bind_schema S B (store_after st (bind_schema S A st)) = Inl (ValueError S c)"
  by (auto simp add: bind_schema_def store_after_def Let_def
      split: option.splits cls_value.splits)

text \<open>
  Claim C2. Once a schema class \<open>S\<close> is bound to a model class \<open>A\<close>, binding \<open>S\<close> to a
  second model class \<open>B\<close> fails with the binder's error (\<^verbatim>\<open>ValueError\<close> in the code,
  the spec's binding error). The test reads the own dictionary of \<open>S\<close>: a subclass \<open>S'\<close>
  of \<open>S\<close> with an empty body inherits \<^verbatim>\<open>model_cls\<close> from \<open>S\<close>, and yet binding \<open>S'\<close> to
  \<open>B\<close> succeeds.
\<close>

theorem single_binding:
  assumes "bind_schema S A st = Inr st1"
  shows "bind_schema S B st1 = Inl (ValueError S (Heap A))
     \<and> (S' \<noteq> S \<longrightarrow>
          type_getattr (class_def S' (Heap S) [] st1) model_cls (Heap S')
            = Some (ClassValue (Heap A)))
     \<and> (\<exists>st2. bind_schema S' B (class_def S' (Heap S) [] st1) = Inr st2
              \<and> model_cls (st2 S') = Some (ClassValue (Heap B)))"
proof -
  have a: "model_cls (st1 S) = Some (ClassValue (Heap A))"
    using assms by (rule bind_schema_Inr(6))
  have first: "bind_schema S B st1 = Inl (ValueError S (Heap A))"
    using a by (simp add: bind_schema_def)
  have second: "S' \<noteq> S \<Longrightarrow>
      type_getattr (class_def S' (Heap S) [] st1) model_cls (Heap S') = Some (ClassValue (Heap A))"
    using a by (simp add: type_getattr_def mro_def class_def_def empty_class_def)
  have "model_cls (class_def S' (Heap S) [] st1 S') = None"
    by (simp add: class_def_def empty_class_def)
  then obtain st2 where b: "bind_schema S' B (class_def S' (Heap S) [] st1) = Inr st2"
    using bind_schema_unbound by blast
  have "model_cls (st2 S') = Some (ClassValue (Heap B))"
    using b by (rule bind_schema_Inr(6))
  with first second b show ?thesis by blast
qed

theorem single_binding_witness:
  "bind_schema ''_DummySchema'' ''_DummyModel'' dummy_classes
     = Inr (store_after dummy_classes (bind_schema ''_DummySchema'' ''_DummyModel'' dummy_classes))
   \<and> bind_schema ''_DummySchema'' ''_AnotherModel''
       (store_after dummy_classes (bind_schema ''_DummySchema'' ''_DummyModel'' dummy_classes))
     = Inl (ValueError ''_DummySchema'' (Heap ''_DummyModel''))
   \<and> type_getattr
       (class_def ''_SchemaCopy'' (Heap ''_DummySchema'') []
          (store_after dummy_classes (bind_schema ''_DummySchema'' ''_DummyModel'' dummy_classes)))
       model_cls (Heap ''_SchemaCopy'')
     = Some (ClassValue (Heap ''_DummyModel''))
   \<and> (\<exists>st2. bind_schema ''_SchemaCopy'' ''_AnotherModel''
              (class_def ''_SchemaCopy'' (Heap ''_DummySchema'') []
                 (store_after dummy_classes
                    (bind_schema ''_DummySchema'' ''_DummyModel'' dummy_classes)))
            = Inr st2
          \<and> model_cls (st2 ''_SchemaCopy'') = Some (ClassValue (Heap ''_AnotherModel'')))"
proof -
  have h: "bind_schema ''_DummySchema'' ''_DummyModel'' dummy_classes
     = Inr (store_after dummy_classes (bind_schema ''_DummySchema'' ''_DummyModel'' dummy_classes))"
    by (simp add: store_after_def bind_schema_def dummy_classes_def class_def_def
        initial_store_def empty_class_def Let_def)
  show ?thesis
    using h single_binding [OF h, of "''_AnotherModel''" "''_SchemaCopy''"]
    by simp
qed

text \<open>
  Claim C9. \<^verbatim>\<open>BaseSchema\<close> declares \<^verbatim>\<open>model_cls = SimpleNamespace\<close> in its own body, so
  binding \<^verbatim>\<open>BaseSchema\<close> itself to any model class fails with the already-bound error,
  although no binder ever bound it.
\<close>

theorem base_schema_cannot_be_bound:
  "model_cls (st ''BaseSchema'') = Some (ClassValue SimpleNamespace) \<Longrightarrow>
   bind_schema ''BaseSchema'' M st = Inl (ValueError ''BaseSchema'' SimpleNamespace)"
  by (simp add: bind_schema_def)

theorem base_schema_cannot_be_bound_witness:
  "model_cls ((initial_store :: pyval store) ''BaseSchema'') = Some (ClassValue SimpleNamespace)
   \<and> bind_schema ''BaseSchema'' ''Person'' (initial_store :: pyval store)
       = Inl (ValueError ''BaseSchema'' SimpleNamespace)"
proof -
  have h: "model_cls ((initial_store :: pyval store) ''BaseSchema'')
             = Some (ClassValue SimpleNamespace)"
    by (simp add: initial_store_def)
  show ?thesis
    using h base_schema_cannot_be_bound [of "initial_store :: pyval store" "''Person''"] by simp
qed

text \<open>A binding that succeeds leaves the entry of \<^verbatim>\<open>BaseSchema\<close> as it is, so the
  hypothesis above holds in every store the binder makes from the modules' classes.\<close>

lemma base_schema_entry_kept:
  "bind_schema S M st = Inr st' \<Longrightarrow>
   model_cls (st ''BaseSchema'') = Some (ClassValue SimpleNamespace) \<Longrightarrow>
   model_cls (st' ''BaseSchema'') = Some (ClassValue SimpleNamespace)"
  by (auto simp add: bind_schema_def Let_def split: option.splits cls_value.splits if_splits)

section \<open>The binder of \<^verbatim>\<open>models/base.py\<close>: claim C8\<close>

text \<open>
  Claim C8. The binder of \<^verbatim>\<open>models/base.py\<close> never raises: binding a schema class \<open>S\<close>
  to \<open>A\<close> and then to \<open>B\<close> succeeds both times, the second call overwrites
  \<^verbatim>\<open>model_cls\<close> of \<open>S\<close>, and afterwards whatever \<^verbatim>\<open>from_dict\<close> returns, called on \<open>A\<close>
  or on \<open>B\<close>, is an instance of \<open>B\<close>.
\<close>

theorem models_rebinding:
  "\<exists>st1 st2. models_bind_schema S A st = Inr st1 \<and> models_bind_schema S B st1 = Inr st2
     \<and> type_getattr st2 model_cls (Heap S) = Some (ClassValue (Heap B))
     \<and> (\<forall>d x. from_dict st2 A d = Inr x \<longrightarrow> (\<exists>m. x = Model m \<and> obj_class m = Heap B))
     \<and> (\<forall>d x. from_dict st2 B d = Inr x \<longrightarrow> (\<exists>m. x = Model m \<and> obj_class m = Heap B))"
proof -
  obtain st1 where b1: "models_bind_schema S A st = Inr st1"
    by (simp add: models_bind_schema_def Let_def)
  obtain st2 where b2: "models_bind_schema S B st1 = Inr st2"
    by (simp add: models_bind_schema_def Let_def)
  note f1 = models_bind_schema_Inr [OF b1]
  note f2 = models_bind_schema_Inr [OF b2]
  have mc: "model_cls (st2 S) = Some (ClassValue (Heap B))" by (rule f2(5))
  have sB: "schema (st2 B) = Some S" by (rule f2(1))
  have sA: "schema (st2 A) = Some S"
  proof (cases "A = B")
    case True
    then show ?thesis using sB by simp
  next
    case False
    then show ?thesis using f2(8) [of A] f1(1) by simp
  qed
  have "type_getattr st2 model_cls (Heap S) = Some (ClassValue (Heap B))"
    using mc by (simp add: type_getattr_own)
  moreover have "\<forall>d x. from_dict st2 A d = Inr x \<longrightarrow> (\<exists>m. x = Model m \<and> obj_class m = Heap B)"
    using from_dict_Inr_class [OF sA mc] by blast
  moreover have "\<forall>d x. from_dict st2 B d = Inr x \<longrightarrow> (\<exists>m. x = Model m \<and> obj_class m = Heap B)"
    using from_dict_Inr_class [OF sB mc] by blast
  ultimately show ?thesis using b1 b2 by blast
qed

theorem models_rebinding_witness:
  "(\<exists>st1. models_bind_schema ''NameSchema'' ''_DummyModel'' models_classes = Inr st1
        \<and> models_bind_schema ''NameSchema'' ''_AnotherModel'' st1 = Inr models_bound_twice)
   \<and> from_dict models_bound_twice ''_DummyModel'' [''name'' \<mapsto> Data (PStr ''Foo'')]
     = Inr (Model \<lparr>obj_class = Heap ''_AnotherModel'', obj_dict = [''name'' \<mapsto> Data (PStr ''Foo'')]\<rparr>)
   \<and> from_dict models_bound_twice ''_AnotherModel'' [''name'' \<mapsto> Data (PStr ''Foo'')]
     = Inr (Model \<lparr>obj_class = Heap ''_AnotherModel'', obj_dict = [''name'' \<mapsto> Data (PStr ''Foo'')]\<rparr>)"
proof -
  obtain st1 st2 where a: "models_bind_schema ''NameSchema'' ''_DummyModel'' models_classes = Inr st1"
    and b: "models_bind_schema ''NameSchema'' ''_AnotherModel'' st1 = Inr st2"
    and c: "\<forall>d x. from_dict st2 ''_DummyModel'' d = Inr x
              \<longrightarrow> (\<exists>m. x = Model m \<and> obj_class m = Heap ''_AnotherModel'')"
    using models_rebinding [of "''NameSchema''" "''_DummyModel''" models_classes "''_AnotherModel''"]
    by blast
  have s: "st2 = models_bound_twice"
    using a b by (simp add: models_bound_twice_def store_after_def)
  have e1: "from_dict models_bound_twice ''_DummyModel'' [''name'' \<mapsto> Data (PStr ''Foo'')]
     = Inr (Model \<lparr>obj_class = Heap ''_AnotherModel'', obj_dict = [''name'' \<mapsto> Data (PStr ''Foo'')]\<rparr>)"
    by (simp add: models_bound_twice_def models_classes_def store_eval api_eval fun_eq_iff domIff)
  have e2: "from_dict models_bound_twice ''_AnotherModel'' [''name'' \<mapsto> Data (PStr ''Foo'')]
     = Inr (Model \<lparr>obj_class = Heap ''_AnotherModel'', obj_dict = [''name'' \<mapsto> Data (PStr ''Foo'')]\<rparr>)"
    by (simp add: models_bound_twice_def models_classes_def store_eval api_eval fun_eq_iff domIff)
  show ?thesis using a b s c e1 e2 by blast
qed

section \<open>Construction and validation: claims C3 and C4\<close>

text \<open>
  Claim C3. Constructing an instance of a class bound to a schema runs the constructor
  and then the validation; when the validation fails the construction raises
  \<^verbatim>\<open>ValidationError\<close> and returns no instance. The code misses this for a keyword named
  \<^verbatim>\<open>_validate\<close>: the wrapper calls \<^verbatim>\<open>self._validate()\<close>, and the lookup finds on the
  instance what the constructor has just stored there. \<^verbatim>\<open>Person(_validate=0)\<close> lacks
  the required name and fails with \<^verbatim>\<open>TypeError\<close>, the validation never runs;
  \<^verbatim>\<open>Person(_validate=dict)\<close> calls \<^verbatim>\<open>dict\<close> in place of the validation and returns an
  instance that lacks the required name.
\<close>

theorem construction_not_validated:
  "instantiate person_store (Heap ''Person'') [''_validate'' \<mapsto> Data (PInt 0)]
     = Inl (TypeError ''_validate'')
   \<and> instantiate person_store (Heap ''Person'')
       [''_validate'' \<mapsto> Function ''<class 'dict'>'' None]
     = Inr \<lparr>obj_class = Heap ''Person'',
            obj_dict = [''_validate'' \<mapsto> Function ''<class 'dict'>'' None]\<rparr>"
  by (simp add: person_store_def person_classes_def store_eval api_eval domIff)

text \<open>
  Claim C4. For a class bound to a schema with a required field, a construction that
  omits the field fails with \<^verbatim>\<open>ValidationError\<close> and one that supplies it succeeds. The
  code misses both for a keyword named \<^verbatim>\<open>to_dict\<close>, which hides the method that
  \<^verbatim>\<open>_validate\<close> calls on the instance: \<^verbatim>\<open>Person(to_dict=1)\<close> omits the required name and
  fails with \<^verbatim>\<open>TypeError\<close>, and \<^verbatim>\<open>Person(name="Foo", to_dict=1)\<close> supplies it and fails
  with the same \<^verbatim>\<open>TypeError\<close>.
\<close>

theorem required_field_type_error:
  "instantiate person_store (Heap ''Person'') [''to_dict'' \<mapsto> Data (PInt 1)]
     = Inl (TypeError ''to_dict'')
   \<and> instantiate person_store (Heap ''Person'')
       [''name'' \<mapsto> Data (PStr ''Foo''), ''to_dict'' \<mapsto> Data (PInt 1)]
     = Inl (TypeError ''to_dict'')"
  by (simp add: person_store_def person_classes_def store_eval api_eval domIff)

section \<open>Loading and dumping: claims C7, C5 and C1\<close>

text \<open>
  Claim C7. For every input map in which some declared field is missing though
  required, or holds a value the field rejects, \<^verbatim>\<open>from_dict\<close> raises \<^verbatim>\<open>ValidationError\<close>
  and returns nothing. The error carries the messages of every such field, not of the
  first only: its entries are exactly the declared fields that report something, each
  with its messages.
\<close>

theorem from_dict_reports_every_field_error:
  assumes "bind_schema S M st0 = Inr st"
    and "(n, f) \<in> set (declared_fields (st0 S))"
    and "field_error f (d n) = Some msgs"
  shows "from_dict st M d
           = Inl (ValidationError (FieldErrors (field_errors (declared_fields (st0 S)) d)))
     \<and> set (field_errors (declared_fields (st0 S)) d)
           = {(n', msgs'). \<exists>f'. (n', f') \<in> set (declared_fields (st0 S))
                                \<and> field_error f' (d n') = Some msgs'}
     \<and> (n, msgs) \<in> set (field_errors (declared_fields (st0 S)) d)"
proof -
  let ?fs = "declared_fields (st0 S)"
  have in_errs: "(n, msgs) \<in> set (field_errors ?fs d)"
    using assms(2,3) by (auto simp add: field_errors_set)
  then have ne: "field_errors ?fs d \<noteq> []" by auto
  have "from_dict st M d = Inl (ValidationError (FieldErrors (field_errors ?fs d)))"
    using ne unmarshal_errors [of ?fs d]
    by (auto simp add: from_dict_bound [OF assms(1)] split: prod.splits)
  then show ?thesis using in_errs field_errors_set [of ?fs d] by simp
qed

theorem from_dict_reports_every_field_error_witness:
  "from_dict names_store ''FullName'' [''last'' \<mapsto> Data (PInt 7)]
     = Inl (ValidationError (FieldErrors
         [(''first'', [''Missing data for required field.'']),
          (''last'', [''Not a valid string.''])]))"
proof -
  have fs: "declared_fields (names_classes ''FullNameSchema'')
              = [(''first'', String_field True), (''last'', String_field True)]"
    by (simp add: names_classes_def store_eval)
  have m: "(''first'', String_field True) \<in> set (declared_fields (names_classes ''FullNameSchema''))"
    by (simp add: fs)
  have e: "field_error (String_field True) ([''last'' \<mapsto> Data (PInt 7)] ''first'')
             = Some [''Missing data for required field.'']"
    by (simp add: field_error_def String_field_def)
  show ?thesis
    using names_bind m e
      from_dict_reports_every_field_error
        [of "''FullNameSchema''" "''FullName''" names_classes names_store "''first''"
            "String_field True" "[''last'' \<mapsto> Data (PInt 7)]" "[''Missing data for required field.'']"]
    by (simp add: fs field_errors_def field_error_def String_field_def)
qed

text \<open>
  Claim C5. An input map with all declared fields and an undeclared key loads into a
  model that has the key as an attribute, and undeclared keys never cause an error. The
  code misses this for the undeclared keys \<^verbatim>\<open>schema\<close> and \<^verbatim>\<open>self\<close>:
  \<^verbatim>\<open>make_model\<close> passes them to the constructor as keywords, where \<^verbatim>\<open>schema\<close> hides the
  schema of the class that the validation reads from the instance, and \<^verbatim>\<open>self\<close>
  repeats the first parameter of the wrapper. \<^verbatim>\<open>from_dict\<close> fails with
  \<^verbatim>\<open>AttributeError\<close> for the first and with \<^verbatim>\<open>TypeError\<close> for the second.
\<close>

theorem unknown_field_error:
  "from_dict person_store ''Person''
     [''name'' \<mapsto> Data (PStr ''Foo''), ''schema'' \<mapsto> Data (PStr ''v1'')]
     = Inl (AttributeError ''validate'')
   \<and> from_dict person_store ''Person''
       [''name'' \<mapsto> Data (PStr ''Foo''), ''self'' \<mapsto> Data (PInt 1)]
     = Inl (TypeError ''self'')"
  by (simp add: person_store_def person_classes_def store_eval api_eval domIff)


text \<open>
  Three more inputs bound what holds of the round trip. A field with a default is dumped
  for an instance that lacks it, so \<^verbatim>\<open>Title()\<close> comes back from its own dump with a title.
  The instance that \<^verbatim>\<open>Person(_validate=dict)\<close> returns was not validated, and its dump does
  not load. And \<^verbatim>\<open>getattr\<close> computes \<^verbatim>\<open>__class__\<close> whatever the instance holds under that
  name, so the dump of an instance with such an attribute is not followed here.
\<close>

lemma default_is_dumped:
  "instantiate title_store (Heap ''Title'') Map.empty
     = Inr \<lparr>obj_class = Heap ''Title'', obj_dict = Map.empty\<rparr>
   \<and> to_dict title_store \<lparr>obj_class = Heap ''Title'', obj_dict = Map.empty\<rparr>
     = Inr [''title'' \<mapsto> Data (PStr ''untitled'')]
   \<and> from_dict title_store ''Title'' [''title'' \<mapsto> Data (PStr ''untitled'')]
     = Inr (Model \<lparr>obj_class = Heap ''Title'',
                   obj_dict = [''title'' \<mapsto> Data (PStr ''untitled'')]\<rparr>)"
  by (simp add: title_store_def title_classes_def store_eval api_eval fun_eq_iff domIff)

lemma unvalidated_instance_does_not_load:
  "to_dict person_store
     \<lparr>obj_class = Heap ''Person'',
      obj_dict = [''_validate'' \<mapsto> Function ''<class 'dict'>'' None]\<rparr>
     = Inr [''_validate'' \<mapsto> Function ''<class 'dict'>'' None]
   \<and> from_dict person_store ''Person'' [''_validate'' \<mapsto> Function ''<class 'dict'>'' None]
     = Inl (ValidationError (FieldErrors [(''name'', [''Missing data for required field.''])]))"
  by (simp add: person_store_def person_classes_def store_eval api_eval fun_eq_iff domIff)

lemma descriptor_key_not_followed:
  "instantiate person_store (Heap ''Person'')
     [''name'' \<mapsto> Data (PStr ''Foo''), ''__class__'' \<mapsto> Data (PInt 5)]
   = Inl (Not_modelled ''getattr'')"
  by (simp add: person_store_def person_classes_def store_eval api_eval fun_eq_iff domIff)



end
